theory Spec2Isabelle
  imports Main "HOL-Library.Sublist"
begin

section \<open>The orphan-snapshot reaper: \<open>snapshot-delete-script.py\<close>\<close>

text \<open>
  The script is one function, \<open>lambda_handler(event, context)\<close>. It talks to EC2 through
  a boto3 client and to a logger. Both are effects, so the model threads a world through
  the handler: the provider's own state, the sequence of client calls made so far (with the
  exception each one raised, if any) and the records handed to \<open>logger.info\<close>.
  A Python exception that leaves a block is the \<open>Inl\<close> of a sum.
\<close>

subsection \<open>Exceptions\<close>

text \<open>
  \<open>ClientError response operation_name\<close> is botocore's \<open>ClientError\<close>: \<open>response\<close> is
  the dict \<open>e.response\<close>, whose entry \<open>"Error"\<close> is a dict with the entries \<open>"Code"\<close> and
  \<open>"Message"\<close> when the service sent them. \<open>KeyError k\<close> is a failed dict subscript,
  \<open>AttributeError c a\<close> a failed lookup of the attribute \<open>a\<close> on an object of class \<open>c\<close>,
  and \<open>OtherException c text\<close> stands for every exception that is not a \<open>ClientError\<close>
  (connection failures, parameter validation, ...), of class \<open>c\<close> and with \<open>str\<close> \<open>text\<close>.
\<close>

type_synonym error_response = "string \<rightharpoonup> (string \<rightharpoonup> string)"

datatype exn =
    ClientError error_response string
  | KeyError string
  | AttributeError string string
  | OtherException string string

text \<open>
  \<open>str(e)\<close>. For a \<open>ClientError\<close> it is botocore's message template, which reads the code
  and the message with \<open>get\<close> and the default \<open>Unknown\<close>.
\<close>

definition error_get :: "error_response \<Rightarrow> string \<Rightarrow> string" where
  "error_get response k =
     (case response ''Error'' of
        None \<Rightarrow> ''Unknown''
      | Some err \<Rightarrow> (case err k of None \<Rightarrow> ''Unknown'' | Some v \<Rightarrow> v))"

fun str_exn :: "exn \<Rightarrow> string" where
  "str_exn (ClientError response operation_name) =
     ''An error occurred ('' @ error_get response ''Code'' @ '') when calling the '' @
     operation_name @ '' operation: '' @ error_get response ''Message''"
| "str_exn (KeyError k) = [CHR 0x27] @ k @ [CHR 0x27]"
| "str_exn (AttributeError c a) =
     [CHR 0x27] @ c @ [CHR 0x27] @ '' object has no attribute '' @ [CHR 0x27] @ a @ [CHR 0x27]"
| "str_exn (OtherException c text) = text"

fun is_ClientError :: "exn \<Rightarrow> bool" where
  "is_ClientError (ClientError response operation_name) = True"
| "is_ClientError _ = False"

text \<open>
  The expression \<open>e.response["Error"]["Code"]\<close> of line 17: two subscripts, each of which
  raises \<open>KeyError\<close> when the key is absent. Only a \<open>ClientError\<close> has the attribute
  \<open>response\<close>.
\<close>

fun error_code :: "exn \<Rightarrow> exn + string" where
  "error_code (ClientError response operation_name) =
     (case response ''Error'' of
        None \<Rightarrow> Inl (KeyError ''Error'')
      | Some err \<Rightarrow>
          (case err ''Code'' of None \<Rightarrow> Inl (KeyError ''Code'') | Some code \<Rightarrow> Inr code))"
| "error_code (KeyError k) = Inl (AttributeError ''KeyError'' ''response'')"
| "error_code (AttributeError c a) = Inl (AttributeError ''AttributeError'' ''response'')"
| "error_code (OtherException c text) = Inl (AttributeError c ''response'')"

subsection \<open>Data\<close>

text \<open>
  A snapshot record is a Python dict from field names to strings; the response of
  \<open>describe_snapshots\<close> is a dict whose entry \<open>"Snapshots"\<close> is the list of records.
  The handler's return value is a dict with \<open>statusCode\<close> and, on one path, \<open>body\<close>.
\<close>

type_synonym snapshot = "string \<rightharpoonup> string"

type_synonym describe_snapshots_response = "string \<rightharpoonup> snapshot list"

record lambda_result =
  statusCode :: int
  body :: "string option"

subsection \<open>The EC2 client and the world\<close>

text \<open>
  The three client operations the handler calls, over a provider state \<open>'s\<close>, with the
  keyword arguments the source passes (\<open>OwnerIds\<close>/\<open>VolumeIds\<close>, \<open>DryRun\<close>,
  \<open>SnapshotId\<close>). \<open>boto3.client("ec2")\<close> is the client given to the model.
\<close>

record 's ec2_client =
  describe_snapshots :: "string list \<Rightarrow> bool \<Rightarrow> 's \<Rightarrow> (exn + describe_snapshots_response) \<times> 's"
  describe_volume_status :: "string list \<Rightarrow> bool \<Rightarrow> 's \<Rightarrow> (exn + unit) \<times> 's"
  delete_snapshot :: "string \<Rightarrow> 's \<Rightarrow> (exn + unit) \<times> 's"

datatype api_call =
    DescribeSnapshots "string list" bool "exn option"
  | DescribeVolumeStatus "string list" bool "exn option"
  | DeleteSnapshot string "exn option"

record 's world =
  provider :: 's
  calls :: "api_call list"
  logged :: "string list"

definition init_world :: "'s \<Rightarrow> 's world" where
  "init_world s = \<lparr>provider = s, calls = [], logged = []\<rparr>"

fun raised :: "exn + 'a \<Rightarrow> exn option" where
  "raised (Inl e) = Some e"
| "raised (Inr v) = None"

definition call_describe_snapshots ::
  "'s ec2_client \<Rightarrow> string list \<Rightarrow> bool \<Rightarrow> 's world \<Rightarrow> (exn + describe_snapshots_response) \<times> 's world" where
  "call_describe_snapshots cli owner_ids dry_run w =
     (case describe_snapshots cli owner_ids dry_run (provider w) of
        (r, s') \<Rightarrow>
          (r, w\<lparr>provider := s', calls := calls w @ [DescribeSnapshots owner_ids dry_run (raised r)]\<rparr>))"

definition call_describe_volume_status ::
  "'s ec2_client \<Rightarrow> string list \<Rightarrow> bool \<Rightarrow> 's world \<Rightarrow> (exn + unit) \<times> 's world" where
  "call_describe_volume_status cli volume_ids dry_run w =
     (case describe_volume_status cli volume_ids dry_run (provider w) of
        (r, s') \<Rightarrow>
          (r, w\<lparr>provider := s', calls := calls w @ [DescribeVolumeStatus volume_ids dry_run (raised r)]\<rparr>))"

definition call_delete_snapshot ::
  "'s ec2_client \<Rightarrow> string \<Rightarrow> 's world \<Rightarrow> (exn + unit) \<times> 's world" where
  "call_delete_snapshot cli sid w =
     (case delete_snapshot cli sid (provider w) of
        (r, s') \<Rightarrow> (r, w\<lparr>provider := s', calls := calls w @ [DeleteSnapshot sid (raised r)]\<rparr>))"

definition logger_info :: "string \<Rightarrow> 's world \<Rightarrow> 's world" where
  "logger_info msg w = w\<lparr>logged := logged w @ [msg]\<rparr>"

subsection \<open>Except clauses\<close>

text \<open>
  The two except clauses name their exception class through an attribute of the client:
  \<open>ec2_cli.exceptions.ClientError\<close> at line 16 and \<open>ec2_cli.exception.ClientError\<close> at
  line 27. Python evaluates that expression only when an exception reaches the clause.
  Of the attribute names the source uses, a boto3 client has \<open>exceptions\<close> and the three
  operations. It has no attribute \<open>exception\<close>: for that name its \<open>__getattr__\<close> raises
  \<open>AttributeError\<close> (the client's class is \<open>EC2\<close>), which then replaces the exception being
  handled.
  \<open>ec2_cli_has_attr\<close> answers for the names of the source only.
\<close>

definition ec2_cli_has_attr :: "string \<Rightarrow> bool" where
  "ec2_cli_has_attr a \<longleftrightarrow>
     a \<in> set [''exceptions'', ''describe_snapshots'', ''describe_volume_status'', ''delete_snapshot'']"

definition except_ClientError :: "string \<Rightarrow> exn \<Rightarrow> exn + bool" where
  "except_ClientError attr e =
     (if ec2_cli_has_attr attr then Inr (is_ClientError e) else Inl (AttributeError ''EC2'' attr))"

subsection \<open>The handler\<close>

text \<open>
  Lines 11 to 20: the loop over \<open>response["Snapshots"]\<close>, with the list \<open>snapshot_id\<close>
  as accumulator.
\<close>

fun collect_orphans ::
  "'s ec2_client \<Rightarrow> snapshot list \<Rightarrow> string list \<Rightarrow> 's world \<Rightarrow> (exn + string list) \<times> 's world" where
  "collect_orphans ec2_cli [] snapshot_id w = (Inr snapshot_id, w)"
| "collect_orphans ec2_cli (each_snapshot # rest) snapshot_id w =
     (case each_snapshot ''VolumeId'' of
        None \<Rightarrow> (Inl (KeyError ''VolumeId''), w)
      | Some volume_id \<Rightarrow>
          (case call_describe_volume_status ec2_cli [volume_id] False w of
             (Inr volume_stat, w') \<Rightarrow> collect_orphans ec2_cli rest snapshot_id w'
           | (Inl e, w') \<Rightarrow>
               (case except_ClientError ''exceptions'' e of
                  Inl a \<Rightarrow> (Inl a, w')
                | Inr False \<Rightarrow> (Inl e, w')
                | Inr True \<Rightarrow>
                    (case error_code e of
                       Inl k \<Rightarrow> (Inl k, w')
                     | Inr code \<Rightarrow>
                         if code = ''InvalidVolume.Notfound'' then
                           (case each_snapshot ''snapshotid'' of
                              None \<Rightarrow> (Inl (KeyError ''snapshotid''), w')
                            | Some sid \<Rightarrow> collect_orphans ec2_cli rest (snapshot_id @ [sid]) w')
                         else (Inl e, w')))))"

text \<open>Lines 8 to 20: the listing, then the loop. The result is the list \<open>snapshot_id\<close>.\<close>

definition find_orphans :: "'s ec2_client \<Rightarrow> 's world \<Rightarrow> (exn + string list) \<times> 's world" where
  "find_orphans ec2_cli w =
     (case call_describe_snapshots ec2_cli [''self''] False w of
        (Inl e, w1) \<Rightarrow> (Inl e, w1)
      | (Inr response, w1) \<Rightarrow>
          (case response ''Snapshots'' of
             None \<Rightarrow> (Inl (KeyError ''Snapshots''), w1)
           | Some snaps \<Rightarrow> collect_orphans ec2_cli snaps [] w1))"

text \<open>
  Lines 23 to 31: the deletion loop. \<open>Inr (Some r)\<close> is the \<open>return\<close> inside the loop,
  \<open>Inr None\<close> the loop running to its end.
\<close>

fun delete_orphans ::
  "'s ec2_client \<Rightarrow> string list \<Rightarrow> 's world \<Rightarrow> (exn + lambda_result option) \<times> 's world" where
  "delete_orphans ec2_cli [] w = (Inr None, w)"
| "delete_orphans ec2_cli (each_snap # rest) w =
     (case call_delete_snapshot ec2_cli each_snap w of
        (Inr u, w') \<Rightarrow>
          delete_orphans ec2_cli rest (logger_info (''Deleted SnapshotId '' @ each_snap) w')
      | (Inl e, w') \<Rightarrow>
          (case except_ClientError ''exception'' e of
             Inl a \<Rightarrow> (Inl a, w')
           | Inr False \<Rightarrow> (Inl e, w')
           | Inr True \<Rightarrow>
               (Inr (Some \<lparr>statusCode = 500,
                            body = Some (''Error deleting snapshot '' @ each_snap @ '': '' @ str_exn e)\<rparr>),
                w')))"

definition lambda_handler ::
  "'e \<Rightarrow> 'c \<Rightarrow> 's ec2_client \<Rightarrow> 's world \<Rightarrow> (exn + lambda_result) \<times> 's world" where
  "lambda_handler event context ec2_cli w =
     (case find_orphans ec2_cli w of
        (Inl e, w2) \<Rightarrow> (Inl e, w2)
      | (Inr snapshot_id, w2) \<Rightarrow>
          if snapshot_id \<noteq> [] then
            (case delete_orphans ec2_cli snapshot_id w2 of
               (Inl e, w3) \<Rightarrow> (Inl e, w3)
             | (Inr (Some r), w3) \<Rightarrow> (Inr r, w3)
             | (Inr None, w3) \<Rightarrow> (Inr \<lparr>statusCode = 200, body = None\<rparr>, w3))
          else (Inr \<lparr>statusCode = 200, body = None\<rparr>, w2))"

subsection \<open>A reference provider\<close>

text \<open>
  A small EC2 account for running the handler on concrete inputs: the snapshot records of
  the listing, the identifiers of the volumes that exist, the volumes whose status check
  fails for a reason of its own (throttling, a lost connection, ...) with the exception
  raised, and the identifiers of snapshots that EC2 refuses to delete (for instance because
  an image uses them). The client over it follows the three operations of the provider
  interface: the listing returns the records in order; the volume check raises the fault of
  a volume that has one, succeeds when every volume asked for exists, and otherwise raises a
  \<open>ClientError\<close> for the first missing volume, whose code is the parameter
  \<open>not_found_code\<close>; a deletion removes the records whose \<open>SnapshotId\<close> is the given
  identifier. EC2 itself reports a missing volume with the code \<open>InvalidVolume.NotFound\<close>.
\<close>

definition client_error :: "string \<Rightarrow> string \<Rightarrow> string \<Rightarrow> exn" where
  "client_error operation_name code message =
     ClientError [''Error'' \<mapsto> [''Code'' \<mapsto> code, ''Message'' \<mapsto> message]] operation_name"

definition volume_missing :: "string \<Rightarrow> string \<Rightarrow> exn" where
  "volume_missing not_found_code v =
     client_error ''DescribeVolumeStatus'' not_found_code
       (''The volume '' @ [CHR 0x27] @ v @ [CHR 0x27] @ '' does not exist.'')"

definition snapshot_in_use :: "string \<Rightarrow> exn" where
  "snapshot_in_use sid =
     client_error ''DeleteSnapshot'' ''InvalidSnapshot.InUse''
       (''The snapshot '' @ sid @ '' is currently in use.'')"

definition snapshot_missing :: "string \<Rightarrow> exn" where
  "snapshot_missing sid =
     client_error ''DeleteSnapshot'' ''InvalidSnapshot.NotFound''
       (''The snapshot '' @ [CHR 0x27] @ sid @ [CHR 0x27] @ '' does not exist.'')"

definition request_limit_exceeded :: exn where
  "request_limit_exceeded =
     client_error ''DescribeVolumeStatus'' ''RequestLimitExceeded'' ''Request limit exceeded.''"

text \<open>A \<open>ClientError\<close> whose response has no entry \<open>"Error"\<close>.\<close>

definition bare_client_error :: exn where
  "bare_client_error = ClientError Map.empty ''DescribeVolumeStatus''"

record account =
  snapshots :: "snapshot list"
  volumes :: "string list"
  faults :: "(string \<times> exn) list"
  in_use :: "string list"

definition snapshot_record :: "string \<Rightarrow> string \<Rightarrow> snapshot" where
  "snapshot_record sid vid = [''SnapshotId'' \<mapsto> sid, ''VolumeId'' \<mapsto> vid]"

definition account_describe_snapshots ::
  "string list \<Rightarrow> bool \<Rightarrow> account \<Rightarrow> (exn + describe_snapshots_response) \<times> account" where
  "account_describe_snapshots owner_ids dry_run a = (Inr [''Snapshots'' \<mapsto> snapshots a], a)"

definition account_describe_volume_status ::
  "string \<Rightarrow> string list \<Rightarrow> bool \<Rightarrow> account \<Rightarrow> (exn + unit) \<times> account" where
  "account_describe_volume_status not_found_code volume_ids dry_run a =
     (case List.map_filter (map_of (faults a)) volume_ids of
        e # es \<Rightarrow> (Inl e, a)
      | [] \<Rightarrow>
          (case filter (\<lambda>v. v \<notin> set (volumes a)) volume_ids of
             [] \<Rightarrow> (Inr (), a)
           | v # vs \<Rightarrow> (Inl (volume_missing not_found_code v), a)))"

definition account_delete_snapshot :: "string \<Rightarrow> account \<Rightarrow> (exn + unit) \<times> account" where
  "account_delete_snapshot sid a =
     (if sid \<in> set (in_use a) then
        (Inl (snapshot_in_use sid), a)
      else if list_ex (\<lambda>snap. snap ''SnapshotId'' = Some sid) (snapshots a) then
        (Inr (), a\<lparr>snapshots := filter (\<lambda>snap. snap ''SnapshotId'' \<noteq> Some sid) (snapshots a)\<rparr>)
      else
        (Inl (snapshot_missing sid), a))"

definition account_client :: "string \<Rightarrow> account ec2_client" where
  "account_client not_found_code =
     \<lparr>describe_snapshots = account_describe_snapshots,
      describe_volume_status = account_describe_volume_status not_found_code,
      delete_snapshot = account_delete_snapshot\<rparr>"

text \<open>
  The account of the example scenario: \<open>snap-1\<close> and \<open>snap-3\<close> come from volumes that
  are gone, \<open>snap-2\<close> from a volume that exists. The records are keyed as EC2 keys them.
\<close>

definition example_account :: account where
  "example_account =
     \<lparr>snapshots = [snapshot_record ''snap-1'' ''vol-1'', snapshot_record ''snap-2'' ''vol-2'',
                   snapshot_record ''snap-3'' ''vol-3''],
      volumes = [''vol-2''], faults = [], in_use = []\<rparr>"

text \<open>
  A listing as a stubbed client may give it, each record carrying its identifier under
  \<open>snapshotid\<close> as well: with such records, and the code \<open>InvalidVolume.Notfound\<close>, the
  handler reaches its deletion loop. In \<open>stub_account_in_use\<close> EC2 refuses to delete
  \<open>snap-3\<close>; in \<open>stub_account_no_orphans\<close> every volume exists; in
  \<open>throttled_account\<close> the status check of \<open>vol-3\<close> is throttled.
\<close>

definition stub_record :: "string \<Rightarrow> string \<Rightarrow> snapshot" where
  "stub_record sid vid = [''SnapshotId'' \<mapsto> sid, ''VolumeId'' \<mapsto> vid, ''snapshotid'' \<mapsto> sid]"

definition stub_account :: account where
  "stub_account =
     \<lparr>snapshots = [stub_record ''snap-1'' ''vol-1'', stub_record ''snap-2'' ''vol-2'',
                   stub_record ''snap-3'' ''vol-3''],
      volumes = [''vol-2''], faults = [], in_use = []\<rparr>"

definition stub_account_in_use :: account where
  "stub_account_in_use = stub_account\<lparr>in_use := [''snap-3'']\<rparr>"

definition stub_account_no_orphans :: account where
  "stub_account_no_orphans = stub_account\<lparr>volumes := [''vol-1'', ''vol-2'', ''vol-3'']\<rparr>"

definition throttled_account :: account where
  "throttled_account = stub_account\<lparr>faults := [(''vol-3'', request_limit_exceeded)]\<rparr>"

text \<open>
  The example account when the status check of \<open>vol-1\<close> fails with a \<open>ClientError\<close> that
  carries no error entry.
\<close>

definition bare_error_account :: account where
  "bare_error_account = example_account\<lparr>faults := [(''vol-1'', bare_client_error)]\<rparr>"

subsection \<open>Reading a run\<close>

text \<open>
  What lines 16 and 17 take for "volume not found": a \<open>ClientError\<close> whose code is the
  string \<open>InvalidVolume.Notfound\<close>.
\<close>

definition volume_not_found :: "exn \<Rightarrow> bool" where
  "volume_not_found e \<longleftrightarrow> is_ClientError e \<and> error_code e = Inr ''InvalidVolume.Notfound''"

text \<open>
  The exception with which lines 16 to 20 end for an exception \<open>e\<close> of the status check that
  they do not take for "volume not found": \<open>e\<close> itself, unless \<open>e\<close> is a \<open>ClientError\<close>
  without an error code, for which the subscripts of line 17 raise \<open>KeyError\<close>.
\<close>

definition leaves_check :: "exn \<Rightarrow> exn" where
  "leaves_check e =
     (if is_ClientError e then (case error_code e of Inl k \<Rightarrow> k | Inr code \<Rightarrow> e) else e)"

text \<open>
  The identifiers that an enumeration marks, read off the listing and the status checks made
  for it, record by record: the \<open>snapshotid\<close> of each record whose check raised.
\<close>

fun marked :: "snapshot list \<Rightarrow> api_call list \<Rightarrow> string list" where
  "marked (snap # snaps) (DescribeVolumeStatus volume_ids dry_run (Some e) # cs) =
     (case snap ''snapshotid'' of None \<Rightarrow> marked snaps cs | Some sid \<Rightarrow> sid # marked snaps cs)"
| "marked (snap # snaps) (c # cs) = marked snaps cs"
| "marked snaps cs = []"

text \<open>
  The deletion calls of a trace: the identifiers of all \<open>delete_snapshot\<close> calls, of those
  that returned, and of those that raised, each in call order.
\<close>

fun delete_attempts :: "api_call list \<Rightarrow> string list" where
  "delete_attempts [] = []"
| "delete_attempts (DeleteSnapshot sid r # cs) = sid # delete_attempts cs"
| "delete_attempts (c # cs) = delete_attempts cs"

fun deleted :: "api_call list \<Rightarrow> string list" where
  "deleted [] = []"
| "deleted (DeleteSnapshot sid None # cs) = sid # deleted cs"
| "deleted (c # cs) = deleted cs"

fun failed_deletions :: "api_call list \<Rightarrow> string list" where
  "failed_deletions [] = []"
| "failed_deletions (DeleteSnapshot sid (Some e) # cs) = sid # failed_deletions cs"
| "failed_deletions (c # cs) = failed_deletions cs"

text \<open>
  A record as EC2 lists it: the identifier is under \<open>SnapshotId\<close>, and there is no key
  \<open>snapshotid\<close> (dict keys are case-sensitive).
\<close>

definition keyed_SnapshotId :: "snapshot \<Rightarrow> bool" where
  "keyed_SnapshotId snap \<longleftrightarrow> snap ''SnapshotId'' \<noteq> None \<and> snap ''snapshotid'' = None"

text \<open>The success result of line 32.\<close>

definition status_200 :: lambda_result where
  "status_200 = \<lparr>statusCode = 200, body = None\<rparr>"

section \<open>Properties\<close>

subsection \<open>Traces and single steps\<close>

lemma delete_attempts_append:
  "delete_attempts (xs @ ys) = delete_attempts xs @ delete_attempts ys"
  by (induction xs rule: delete_attempts.induct) simp_all

lemma deleted_append: "deleted (xs @ ys) = deleted xs @ deleted ys"
  by (induction xs rule: deleted.induct) simp_all

lemma failed_deletions_append:
  "failed_deletions (xs @ ys) = failed_deletions xs @ failed_deletions ys"
  by (induction xs rule: failed_deletions.induct) simp_all

lemma except_exceptions: "except_ClientError ''exceptions'' e = Inr (is_ClientError e)"
  by (simp add: except_ClientError_def ec2_cli_has_attr_def)

lemma except_exception: "except_ClientError ''exception'' e = Inl (AttributeError ''EC2'' ''exception'')"
  by (simp add: except_ClientError_def ec2_cli_has_attr_def)

lemma call_describe_snapshots_world:
  "call_describe_snapshots cli owner dr w = (r, w') \<Longrightarrow>
     calls w' = calls w @ [DescribeSnapshots owner dr (raised r)] \<and> logged w' = logged w"
  by (auto simp: call_describe_snapshots_def split: prod.splits)

lemma call_describe_volume_status_world:
  "call_describe_volume_status cli vids dr w = (r, w') \<Longrightarrow>
     calls w' = calls w @ [DescribeVolumeStatus vids dr (raised r)] \<and> logged w' = logged w"
  by (auto simp: call_describe_volume_status_def split: prod.splits)

lemma call_delete_snapshot_world:
  "call_delete_snapshot cli sid w = (r, w') \<Longrightarrow>
     calls w' = calls w @ [DeleteSnapshot sid (raised r)] \<and> logged w' = logged w"
  by (auto simp: call_delete_snapshot_def split: prod.splits)

text \<open>One round of each loop, with the except clause resolved.\<close>

lemma volume_not_found_code:
  "is_ClientError e \<Longrightarrow> error_code e = Inr code \<Longrightarrow>
     volume_not_found e \<longleftrightarrow> code = ''InvalidVolume.Notfound''"
  by (simp add: volume_not_found_def)

lemma collect_orphans_Cons:
  "collect_orphans cli (snap # rest) acc w =
     (case snap ''VolumeId'' of
        None \<Rightarrow> (Inl (KeyError ''VolumeId''), w)
      | Some vid \<Rightarrow>
          (case call_describe_volume_status cli [vid] False w of
             (Inr u, w') \<Rightarrow> collect_orphans cli rest acc w'
           | (Inl e, w') \<Rightarrow>
               if volume_not_found e then
                 (case snap ''snapshotid'' of
                    None \<Rightarrow> (Inl (KeyError ''snapshotid''), w')
                  | Some sid \<Rightarrow> collect_orphans cli rest (acc @ [sid]) w')
               else (Inl (leaves_check e), w')))"
proof (cases "snap ''VolumeId''")
  case None
  then show ?thesis by simp
next
  case (Some vid)
  obtain r w' where step: "call_describe_volume_status cli [vid] False w = (r, w')"
    by (cases "call_describe_volume_status cli [vid] False w")
  show ?thesis
  proof (cases r)
    case (Inr u)
    with Some step show ?thesis by simp
  next
    case (Inl e)
    show ?thesis
    proof (cases "is_ClientError e")
      case False
      with Some step Inl show ?thesis
        by (simp add: except_exceptions volume_not_found_def leaves_check_def)
    next
      case True
      show ?thesis
      proof (cases "error_code e")
        case (Inl k)
        with Some step \<open>r = Inl e\<close> True show ?thesis
          by (simp add: except_exceptions volume_not_found_def leaves_check_def)
      next
        case (Inr code)
        with Some step \<open>r = Inl e\<close> True show ?thesis
          by (simp add: except_exceptions volume_not_found_def leaves_check_def split: option.split)
      qed
    qed
  qed
qed

lemma delete_orphans_Cons:
  "delete_orphans cli (sid # rest) w =
     (case call_delete_snapshot cli sid w of
        (Inr u, w') \<Rightarrow> delete_orphans cli rest (logger_info (''Deleted SnapshotId '' @ sid) w')
      | (Inl e, w') \<Rightarrow> (Inl (AttributeError ''EC2'' ''exception''), w'))"
  by (simp add: except_exception split: prod.split sum.split)

subsection \<open>The enumeration loop\<close>

lemma collect_orphans_keeps:
  "collect_orphans cli snaps acc w = (r, w') \<Longrightarrow>
     delete_attempts (calls w') = delete_attempts (calls w) \<and>
     deleted (calls w') = deleted (calls w) \<and>
     failed_deletions (calls w') = failed_deletions (calls w) \<and>
     logged w' = logged w"
proof (induction snaps arbitrary: acc w)
  case Nil
  then show ?case by simp
next
  case (Cons snap rest)
  show ?case
  proof (cases "snap ''VolumeId''")
    case None
    with Cons.prems show ?thesis by (simp add: collect_orphans_Cons del: collect_orphans.simps)
  next
    case (Some vid)
    obtain r1 w1 where step: "call_describe_volume_status cli [vid] False w = (r1, w1)"
      by (cases "call_describe_volume_status cli [vid] False w")
    note w1 = call_describe_volume_status_world [OF step]
    have keep: "delete_attempts (calls w1) = delete_attempts (calls w) \<and>
                deleted (calls w1) = deleted (calls w) \<and>
                failed_deletions (calls w1) = failed_deletions (calls w) \<and>
                logged w1 = logged w"
      using w1 by (simp add: delete_attempts_append deleted_append failed_deletions_append)
    from Cons.prems Some step
    consider (stop) "w' = w1"
      | (go) acc' where "collect_orphans cli rest acc' w1 = (r, w')"
      by (auto simp add: collect_orphans_Cons simp del: collect_orphans.simps
               split: sum.splits option.splits if_splits)
    then show ?thesis
    proof cases
      case stop
      with keep show ?thesis by simp
    next
      case go
      from Cons.IH [OF go] keep show ?thesis by simp
    qed
  qed
qed

lemma collect_orphans_other_failure:
  "collect_orphans cli snaps acc w = (r, w') \<Longrightarrow>
   DescribeVolumeStatus vids dr (Some e) \<in> set (calls w') \<Longrightarrow>
   DescribeVolumeStatus vids dr (Some e) \<notin> set (calls w) \<Longrightarrow>
   \<not> volume_not_found e \<Longrightarrow> r = Inl (leaves_check e)"
proof (induction snaps arbitrary: acc w)
  case Nil
  then show ?case by simp
next
  case (Cons snap rest)
  show ?case
  proof (cases "snap ''VolumeId''")
    case None
    with Cons.prems show ?thesis by (simp add: collect_orphans_Cons del: collect_orphans.simps)
  next
    case (Some vid)
    obtain r1 w1 where step: "call_describe_volume_status cli [vid] False w = (r1, w1)"
      by (cases "call_describe_volume_status cli [vid] False w")
    note w1 = call_describe_volume_status_world [OF step]
    show ?thesis
    proof (cases "DescribeVolumeStatus vids dr (Some e) \<in> set (calls w1)")
      case True
      with w1 Cons.prems(3) have "r1 = Inl e" by (cases r1) auto
      with Cons.prems(1,4) Some step show ?thesis
        by (simp add: collect_orphans_Cons del: collect_orphans.simps)
    next
      case False
      from Cons.prems(1) Some step
      consider (stop) "w' = w1"
        | (go) acc' where "collect_orphans cli rest acc' w1 = (r, w')"
        by (auto simp add: collect_orphans_Cons simp del: collect_orphans.simps
                 split: sum.splits option.splits if_splits)
      then show ?thesis
      proof cases
        case stop
        with False Cons.prems(2) show ?thesis by simp
      next
        case go
        from Cons.IH [OF go Cons.prems(2) False Cons.prems(4)] show ?thesis .
      qed
    qed
  qed
qed

lemma collect_orphans_key_error:
  "collect_orphans cli snaps acc w = (r, w') \<Longrightarrow>
   list_all keyed_SnapshotId snaps \<Longrightarrow>
   DescribeVolumeStatus vids dr (Some e) \<in> set (calls w') \<Longrightarrow>
   DescribeVolumeStatus vids dr (Some e) \<notin> set (calls w) \<Longrightarrow>
   volume_not_found e \<Longrightarrow> r = Inl (KeyError ''snapshotid'')"
proof (induction snaps arbitrary: acc w)
  case Nil
  then show ?case by simp
next
  case (Cons snap rest)
  from Cons.prems(2) have rest: "list_all keyed_SnapshotId rest"
    by simp
  from Cons.prems(2) have nokey: "snap ''snapshotid'' = None"
    by (simp add: keyed_SnapshotId_def)
  show ?case
  proof (cases "snap ''VolumeId''")
    case None
    with Cons.prems show ?thesis by (simp add: collect_orphans_Cons del: collect_orphans.simps)
  next
    case (Some vid)
    obtain r1 w1 where step: "call_describe_volume_status cli [vid] False w = (r1, w1)"
      by (cases "call_describe_volume_status cli [vid] False w")
    note w1 = call_describe_volume_status_world [OF step]
    show ?thesis
    proof (cases "DescribeVolumeStatus vids dr (Some e) \<in> set (calls w1)")
      case True
      with w1 Cons.prems(4) have "r1 = Inl e" by (cases r1) auto
      with Cons.prems(1,5) Some step nokey show ?thesis
        by (simp add: collect_orphans_Cons del: collect_orphans.simps)
    next
      case False
      from Cons.prems(1) Some step
      consider (stop) "w' = w1"
        | (go) acc' where "collect_orphans cli rest acc' w1 = (r, w')"
        by (auto simp add: collect_orphans_Cons simp del: collect_orphans.simps
                 split: sum.splits option.splits if_splits)
      then show ?thesis
      proof cases
        case stop
        with False Cons.prems(3) show ?thesis by simp
      next
        case go
        from Cons.IH [OF go rest Cons.prems(3) False Cons.prems(5)] show ?thesis .
      qed
    qed
  qed
qed

subsection \<open>The deletion loop\<close>

lemma delete_orphans_result:
  "delete_orphans cli ids w = (r, w') \<Longrightarrow> r = Inr None \<or> r = Inl (AttributeError ''EC2'' ''exception'')"
proof (induction ids arbitrary: w)
  case Nil
  then show ?case by simp
next
  case (Cons sid rest)
  then show ?case
    by (auto simp add: delete_orphans_Cons simp del: delete_orphans.simps split: prod.splits sum.splits)
qed

lemma delete_orphans_checks:
  "delete_orphans cli ids w = (r, w') \<Longrightarrow>
   DescribeVolumeStatus vids dr x \<in> set (calls w') \<Longrightarrow>
   DescribeVolumeStatus vids dr x \<in> set (calls w)"
proof (induction ids arbitrary: w)
  case Nil
  then show ?case by simp
next
  case (Cons sid rest)
  obtain r1 w1 where step: "call_delete_snapshot cli sid w = (r1, w1)"
    by (cases "call_delete_snapshot cli sid w")
  note w1 = call_delete_snapshot_world [OF step]
  show ?case
  proof (cases r1)
    case (Inl e)
    with Cons.prems step w1 show ?thesis
      by (auto simp add: delete_orphans_Cons simp del: delete_orphans.simps)
  next
    case (Inr u)
    with Cons.prems(1) step
    have "delete_orphans cli rest (logger_info (''Deleted SnapshotId '' @ sid) w1) = (r, w')"
      by (simp add: delete_orphans_Cons del: delete_orphans.simps)
    from Cons.IH [OF this Cons.prems(2)] w1 show ?thesis
      by (auto simp: logger_info_def)
  qed
qed

lemma delete_orphans_completed:
  "delete_orphans cli ids w = (Inr None, w') \<Longrightarrow>
     delete_attempts (calls w') = delete_attempts (calls w) @ ids \<and>
     deleted (calls w') = deleted (calls w) @ ids \<and>
     failed_deletions (calls w') = failed_deletions (calls w) \<and>
     logged w' = logged w @ map (\<lambda>sid. ''Deleted SnapshotId '' @ sid) ids"
proof (induction ids arbitrary: w)
  case Nil
  then show ?case by simp
next
  case (Cons sid rest)
  obtain r1 w1 where step: "call_delete_snapshot cli sid w = (r1, w1)"
    by (cases "call_delete_snapshot cli sid w")
  note w1 = call_delete_snapshot_world [OF step]
  show ?case
  proof (cases r1)
    case (Inl e)
    with Cons.prems step show ?thesis
      by (simp add: delete_orphans_Cons del: delete_orphans.simps)
  next
    case (Inr u)
    with Cons.prems(1) step
    have "delete_orphans cli rest (logger_info (''Deleted SnapshotId '' @ sid) w1) = (Inr None, w')"
      by (simp add: delete_orphans_Cons del: delete_orphans.simps)
    from Cons.IH [OF this] w1 Inr show ?thesis
      by (simp add: logger_info_def delete_attempts_append deleted_append failed_deletions_append)
  qed
qed

lemma delete_orphans_raised:
  "delete_orphans cli ids w = (Inl e, w') \<Longrightarrow>
     length (failed_deletions (calls w')) = Suc (length (failed_deletions (calls w)))"
proof (induction ids arbitrary: w)
  case Nil
  then show ?case by simp
next
  case (Cons sid rest)
  obtain r1 w1 where step: "call_delete_snapshot cli sid w = (r1, w1)"
    by (cases "call_delete_snapshot cli sid w")
  note w1 = call_delete_snapshot_world [OF step]
  show ?case
  proof (cases r1)
    case (Inl e1)
    with Cons.prems step w1 show ?thesis
      by (auto simp add: delete_orphans_Cons failed_deletions_append simp del: delete_orphans.simps)
  next
    case (Inr u)
    with Cons.prems(1) step
    have "delete_orphans cli rest (logger_info (''Deleted SnapshotId '' @ sid) w1) = (Inl e, w')"
      by (simp add: delete_orphans_Cons del: delete_orphans.simps)
    from Cons.IH [OF this] w1 Inr show ?thesis
      by (simp add: logger_info_def failed_deletions_append)
  qed
qed

lemma delete_orphans_in_order:
  "delete_orphans cli ids w = (r, w') \<Longrightarrow>
     \<exists>k j. k \<le> j \<and> j \<le> length ids \<and> (ids \<noteq> [] \<longrightarrow> 0 < j) \<and>
       delete_attempts (calls w') = delete_attempts (calls w) @ take j ids \<and>
       deleted (calls w') = deleted (calls w) @ take k ids \<and>
       logged w' = logged w @ map (\<lambda>sid. ''Deleted SnapshotId '' @ sid) (take k ids)"
proof (induction ids arbitrary: w)
  case Nil
  then show ?case by simp
next
  case (Cons sid rest)
  obtain r1 w1 where step: "call_delete_snapshot cli sid w = (r1, w1)"
    by (cases "call_delete_snapshot cli sid w")
  note w1 = call_delete_snapshot_world [OF step]
  show ?case
  proof (cases r1)
    case (Inl e1)
    with Cons.prems step have "w' = w1"
      by (simp add: delete_orphans_Cons del: delete_orphans.simps)
    with w1 Inl have
      "0 \<le> Suc 0 \<and> Suc 0 \<le> length (sid # rest) \<and> (sid # rest \<noteq> [] \<longrightarrow> 0 < Suc 0) \<and>
       delete_attempts (calls w') = delete_attempts (calls w) @ take (Suc 0) (sid # rest) \<and>
       deleted (calls w') = deleted (calls w) @ take 0 (sid # rest) \<and>
       logged w' = logged w @ map (\<lambda>sid. ''Deleted SnapshotId '' @ sid) (take 0 (sid # rest))"
      by (simp add: delete_attempts_append deleted_append)
    then show ?thesis by blast
  next
    case (Inr u)
    with Cons.prems(1) step
    have "delete_orphans cli rest (logger_info (''Deleted SnapshotId '' @ sid) w1) = (r, w')"
      by (simp add: delete_orphans_Cons del: delete_orphans.simps)
    from Cons.IH [OF this] obtain k j where kj: "k \<le> j" "j \<le> length rest"
      and a: "delete_attempts (calls w') =
              delete_attempts (calls (logger_info (''Deleted SnapshotId '' @ sid) w1)) @ take j rest"
      and d: "deleted (calls w') =
              deleted (calls (logger_info (''Deleted SnapshotId '' @ sid) w1)) @ take k rest"
      and l: "logged w' = logged (logger_info (''Deleted SnapshotId '' @ sid) w1) @
              map (\<lambda>sid. ''Deleted SnapshotId '' @ sid) (take k rest)"
      by blast
    from kj a d l w1 Inr have
      "Suc k \<le> Suc j \<and> Suc j \<le> length (sid # rest) \<and> (sid # rest \<noteq> [] \<longrightarrow> 0 < Suc j) \<and>
       delete_attempts (calls w') = delete_attempts (calls w) @ take (Suc j) (sid # rest) \<and>
       deleted (calls w') = deleted (calls w) @ take (Suc k) (sid # rest) \<and>
       logged w' = logged w @ map (\<lambda>sid. ''Deleted SnapshotId '' @ sid) (take (Suc k) (sid # rest))"
      by (simp add: logger_info_def delete_attempts_append deleted_append)
    then show ?thesis by blast
  qed
qed

subsection \<open>The handler as two phases\<close>

lemma lambda_handler_phases:
  "lambda_handler ev ctx cli w =
     (case find_orphans cli w of
        (Inl e, w2) \<Rightarrow> (Inl e, w2)
      | (Inr ids, w2) \<Rightarrow>
          (case delete_orphans cli ids w2 of
             (Inl e, w3) \<Rightarrow> (Inl e, w3)
           | (Inr (Some r), w3) \<Rightarrow> (Inr r, w3)
           | (Inr None, w3) \<Rightarrow> (Inr status_200, w3)))"
  by (auto simp: lambda_handler_def status_200_def split: prod.split sum.split option.split)

lemma find_orphans_listing:
  "find_orphans cli (init_world s) = (r, w2) \<Longrightarrow>
     (calls w2 = [DescribeSnapshots [''self''] False (raised (fst (describe_snapshots cli [''self''] False s)))]
        \<and> logged w2 = [] \<and> (\<exists>e. r = Inl e)) \<or>
     (\<exists>response s1 snaps w1.
        describe_snapshots cli [''self''] False s = (Inr response, s1) \<and>
        response ''Snapshots'' = Some snaps \<and>
        calls w1 = [DescribeSnapshots [''self''] False None] \<and> logged w1 = [] \<and>
        collect_orphans cli snaps [] w1 = (r, w2))"
  by (auto simp: find_orphans_def call_describe_snapshots_def init_world_def
           split: prod.splits sum.splits option.splits)

lemma find_orphans_keeps:
  assumes "find_orphans cli (init_world s) = (r, w2)"
  shows "delete_attempts (calls w2) = [] \<and> deleted (calls w2) = [] \<and>
         failed_deletions (calls w2) = [] \<and> logged w2 = []"
  using find_orphans_listing [OF assms]
proof (elim disjE exE conjE)
  assume "calls w2 = [DescribeSnapshots [''self''] False (raised (fst (describe_snapshots cli [''self''] False s)))]"
    and "logged w2 = []"
  then show ?thesis by simp
next
  fix response s1 snaps w1
  assume w1: "calls w1 = [DescribeSnapshots [''self''] False None]" "logged w1 = []"
    and c: "collect_orphans cli snaps [] w1 = (r, w2)"
  from collect_orphans_keeps [OF c] w1 show ?thesis by simp
qed

lemma find_orphans_other_failure:
  assumes "find_orphans cli (init_world s) = (r, w2)"
    and "DescribeVolumeStatus vids dr (Some e) \<in> set (calls w2)"
    and "\<not> volume_not_found e"
  shows "r = Inl (leaves_check e)"
  using find_orphans_listing [OF assms(1)]
proof (elim disjE exE conjE)
  assume "calls w2 = [DescribeSnapshots [''self''] False (raised (fst (describe_snapshots cli [''self''] False s)))]"
  with assms(2) show ?thesis by simp
next
  fix response s1 snaps w1
  assume w1: "calls w1 = [DescribeSnapshots [''self''] False None]"
    and c: "collect_orphans cli snaps [] w1 = (r, w2)"
  from w1 have "DescribeVolumeStatus vids dr (Some e) \<notin> set (calls w1)" by simp
  from collect_orphans_other_failure [OF c assms(2) this assms(3)] show ?thesis .
qed

lemma find_orphans_key_error:
  assumes "find_orphans cli (init_world s) = (r, w2)"
    and "describe_snapshots cli [''self''] False s = (Inr response, s1)"
    and "response ''Snapshots'' = Some snaps"
    and "list_all keyed_SnapshotId snaps"
    and "DescribeVolumeStatus vids dr (Some e) \<in> set (calls w2)"
    and "volume_not_found e"
  shows "r = Inl (KeyError ''snapshotid'')"
  using find_orphans_listing [OF assms(1)]
proof (elim disjE exE conjE)
  assume "calls w2 = [DescribeSnapshots [''self''] False (raised (fst (describe_snapshots cli [''self''] False s)))]"
  with assms(5) show ?thesis by simp
next
  fix response' s1' snaps' w1
  assume l: "describe_snapshots cli [''self''] False s = (Inr response', s1')"
    "response' ''Snapshots'' = Some snaps'"
    and w1: "calls w1 = [DescribeSnapshots [''self''] False None]"
    and c: "collect_orphans cli snaps' [] w1 = (r, w2)"
  from l assms(2,3) have same: "snaps' = snaps" by simp
  from w1 have "DescribeVolumeStatus vids dr (Some e) \<notin> set (calls w1)" by simp
  from collect_orphans_key_error [OF c [unfolded same] assms(4) assms(5) this assms(6)]
  show ?thesis .
qed

lemma handler_aborts_in_enumeration:
  assumes "lambda_handler ev ctx cli (init_world s) = (res, w')"
    and "find_orphans cli (init_world s) = (Inl e, w2)"
  shows "res = Inl e \<and> w' = w2 \<and> delete_attempts (calls w') = [] \<and> logged w' = []"
  using assms find_orphans_keeps [OF assms(2)] by (auto simp: lambda_handler_phases)

lemma handler_after_enumeration:
  assumes "lambda_handler ev ctx cli (init_world s) = (res, w')"
    and "find_orphans cli (init_world s) = (Inr ids, w2)"
  shows "\<exists>r. delete_orphans cli ids w2 = (r, w') \<and>
           (r = Inr None \<and> res = Inr status_200 \<or>
            r = Inl (AttributeError ''EC2'' ''exception'') \<and> res = Inl (AttributeError ''EC2'' ''exception''))"
proof -
  obtain r w3 where d: "delete_orphans cli ids w2 = (r, w3)"
    by (cases "delete_orphans cli ids w2")
  from delete_orphans_result [OF d] assms d show ?thesis
    by (auto simp: lambda_handler_phases)
qed

lemma handler_check_failure:
  assumes run: "lambda_handler ev ctx cli (init_world s) = (res, w')"
    and bad: "DescribeVolumeStatus vids dr (Some e) \<in> set (calls w')"
    and other: "\<not> volume_not_found e"
  shows "res = Inl (leaves_check e) \<and> delete_attempts (calls w') = [] \<and>
         fst (find_orphans cli (init_world s)) = Inl (leaves_check e)"
proof -
  obtain r w2 where f: "find_orphans cli (init_world s) = (r, w2)"
    by (cases "find_orphans cli (init_world s)")
  show ?thesis
  proof (cases r)
    case (Inl e')
    from handler_aborts_in_enumeration [OF run f [unfolded Inl]]
    have *: "res = Inl e'" "w' = w2" "delete_attempts (calls w') = []" by blast+
    from find_orphans_other_failure [OF f bad [unfolded *(2)] other] Inl have "e' = leaves_check e" by simp
    with * f Inl show ?thesis by simp
  next
    case (Inr ids)
    from handler_after_enumeration [OF run f [unfolded Inr]]
    obtain r' where d: "delete_orphans cli ids w2 = (r', w')" by blast
    from delete_orphans_checks [OF d bad] have "DescribeVolumeStatus vids dr (Some e) \<in> set (calls w2)" .
    from find_orphans_other_failure [OF f this other] Inr show ?thesis by simp
  qed
qed

lemma handler_key_error:
  assumes run: "lambda_handler ev ctx cli (init_world s) = (res, w')"
    and listing: "describe_snapshots cli [''self''] False s = (Inr response, s1)"
      "response ''Snapshots'' = Some snaps" "list_all keyed_SnapshotId snaps"
    and nf: "DescribeVolumeStatus vids dr (Some e) \<in> set (calls w')" "volume_not_found e"
  shows "res = Inl (KeyError ''snapshotid'') \<and> delete_attempts (calls w') = [] \<and>
         fst (find_orphans cli (init_world s)) = Inl (KeyError ''snapshotid'')"
proof -
  obtain r w2 where f: "find_orphans cli (init_world s) = (r, w2)"
    by (cases "find_orphans cli (init_world s)")
  show ?thesis
  proof (cases r)
    case (Inl e')
    from handler_aborts_in_enumeration [OF run f [unfolded Inl]]
    have *: "res = Inl e'" "w' = w2" "delete_attempts (calls w') = []" by blast+
    from find_orphans_key_error [OF f listing nf(1) [unfolded *(2)] nf(2)] Inl
    have "e' = KeyError ''snapshotid''" by simp
    with * f Inl show ?thesis by simp
  next
    case (Inr ids)
    from handler_after_enumeration [OF run f [unfolded Inr]]
    obtain r' where d: "delete_orphans cli ids w2 = (r', w')" by blast
    from delete_orphans_checks [OF d nf(1)] have "DescribeVolumeStatus vids dr (Some e) \<in> set (calls w2)" .
    from find_orphans_key_error [OF f listing this nf(2)] Inr show ?thesis by simp
  qed
qed

subsection \<open>Concrete runs\<close>

lemma client_error_code:
  "is_ClientError (client_error operation_name code message)"
  "error_code (client_error operation_name code message) = Inr code"
  by (simp_all add: client_error_def)

lemma fixture_codes:
  "is_ClientError (volume_missing not_found_code v)"
  "error_code (volume_missing not_found_code v) = Inr not_found_code"
  "is_ClientError (snapshot_in_use sid)"
  "error_code (snapshot_in_use sid) = Inr ''InvalidSnapshot.InUse''"
  "is_ClientError request_limit_exceeded"
  "error_code request_limit_exceeded = Inr ''RequestLimitExceeded''"
  "is_ClientError bare_client_error"
  "error_code bare_client_error = Inl (KeyError ''Error'')"
  by (simp_all add: volume_missing_def snapshot_in_use_def request_limit_exceeded_def
        bare_client_error_def client_error_code)

lemmas run_simps =
  lambda_handler_def find_orphans_def init_world_def
  call_describe_snapshots_def call_describe_volume_status_def call_delete_snapshot_def
  logger_info_def except_ClientError_def ec2_cli_has_attr_def
  account_client_def account_describe_snapshots_def account_describe_volume_status_def
  account_delete_snapshot_def snapshot_record_def stub_record_def List.map_filter_simps
  fixture_codes

lemma run_example_account:
  "lambda_handler ev ctx (account_client ''InvalidVolume.NotFound'') (init_world example_account) =
     (Inl (volume_missing ''InvalidVolume.NotFound'' ''vol-1''),
      \<lparr>provider = example_account,
       calls = [DescribeSnapshots [''self''] False None,
                DescribeVolumeStatus [''vol-1''] False
                  (Some (volume_missing ''InvalidVolume.NotFound'' ''vol-1''))],
       logged = []\<rparr>)"
  by (simp add: run_simps example_account_def)

lemma run_example_account_lowercase_code:
  "lambda_handler ev ctx (account_client ''InvalidVolume.Notfound'') (init_world example_account) =
     (Inl (KeyError ''snapshotid''),
      \<lparr>provider = example_account,
       calls = [DescribeSnapshots [''self''] False None,
                DescribeVolumeStatus [''vol-1''] False
                  (Some (volume_missing ''InvalidVolume.Notfound'' ''vol-1''))],
       logged = []\<rparr>)"
  by (simp add: run_simps example_account_def)

lemma run_throttled_account:
  "lambda_handler ev ctx (account_client ''InvalidVolume.Notfound'') (init_world throttled_account) =
     (Inl request_limit_exceeded,
      \<lparr>provider = throttled_account,
       calls = [DescribeSnapshots [''self''] False None,
                DescribeVolumeStatus [''vol-1''] False
                  (Some (volume_missing ''InvalidVolume.Notfound'' ''vol-1'')),
                DescribeVolumeStatus [''vol-2''] False None,
                DescribeVolumeStatus [''vol-3''] False
                  (Some request_limit_exceeded)],
       logged = []\<rparr>)"
  by (simp add: run_simps throttled_account_def stub_account_def)

lemma run_bare_error_account:
  "lambda_handler ev ctx (account_client ''InvalidVolume.NotFound'') (init_world bare_error_account) =
     (Inl (KeyError ''Error''),
      \<lparr>provider = bare_error_account,
       calls = [DescribeSnapshots [''self''] False None,
                DescribeVolumeStatus [''vol-1''] False (Some bare_client_error)],
       logged = []\<rparr>)"
  by (simp add: run_simps bare_error_account_def example_account_def)

lemma find_orphans_stub_account:
  "find_orphans (account_client ''InvalidVolume.Notfound'') (init_world stub_account) =
     (Inr [''snap-1'', ''snap-3''],
      \<lparr>provider = stub_account,
       calls = [DescribeSnapshots [''self''] False None,
                DescribeVolumeStatus [''vol-1''] False
                  (Some (volume_missing ''InvalidVolume.Notfound'' ''vol-1'')),
                DescribeVolumeStatus [''vol-2''] False None,
                DescribeVolumeStatus [''vol-3''] False
                  (Some (volume_missing ''InvalidVolume.Notfound'' ''vol-3''))],
       logged = []\<rparr>)"
  by (simp add: run_simps stub_account_def)

lemma run_stub_account:
  "lambda_handler ev ctx (account_client ''InvalidVolume.Notfound'') (init_world stub_account) =
     (Inr \<lparr>statusCode = 200, body = None\<rparr>,
      \<lparr>provider = stub_account\<lparr>snapshots := [stub_record ''snap-2'' ''vol-2'']\<rparr>,
       calls = [DescribeSnapshots [''self''] False None,
                DescribeVolumeStatus [''vol-1''] False
                  (Some (volume_missing ''InvalidVolume.Notfound'' ''vol-1'')),
                DescribeVolumeStatus [''vol-2''] False None,
                DescribeVolumeStatus [''vol-3''] False
                  (Some (volume_missing ''InvalidVolume.Notfound'' ''vol-3'')),
                DeleteSnapshot ''snap-1'' None, DeleteSnapshot ''snap-3'' None],
       logged = [''Deleted SnapshotId snap-1'', ''Deleted SnapshotId snap-3'']\<rparr>)"
  by (simp add: run_simps stub_account_def)

lemma find_orphans_stub_account_in_use:
  "find_orphans (account_client ''InvalidVolume.Notfound'') (init_world stub_account_in_use) =
     (Inr [''snap-1'', ''snap-3''],
      \<lparr>provider = stub_account_in_use,
       calls = [DescribeSnapshots [''self''] False None,
                DescribeVolumeStatus [''vol-1''] False
                  (Some (volume_missing ''InvalidVolume.Notfound'' ''vol-1'')),
                DescribeVolumeStatus [''vol-2''] False None,
                DescribeVolumeStatus [''vol-3''] False
                  (Some (volume_missing ''InvalidVolume.Notfound'' ''vol-3''))],
       logged = []\<rparr>)"
  by (simp add: run_simps stub_account_in_use_def stub_account_def)

lemma run_stub_account_in_use:
  "lambda_handler ev ctx (account_client ''InvalidVolume.Notfound'') (init_world stub_account_in_use) =
     (Inl (AttributeError ''EC2'' ''exception''),
      \<lparr>provider = stub_account_in_use
                     \<lparr>snapshots := [stub_record ''snap-2'' ''vol-2'', stub_record ''snap-3'' ''vol-3'']\<rparr>,
       calls = [DescribeSnapshots [''self''] False None,
                DescribeVolumeStatus [''vol-1''] False
                  (Some (volume_missing ''InvalidVolume.Notfound'' ''vol-1'')),
                DescribeVolumeStatus [''vol-2''] False None,
                DescribeVolumeStatus [''vol-3''] False
                  (Some (volume_missing ''InvalidVolume.Notfound'' ''vol-3'')),
                DeleteSnapshot ''snap-1'' None,
                DeleteSnapshot ''snap-3''
                  (Some (snapshot_in_use ''snap-3''))],
       logged = [''Deleted SnapshotId snap-1'']\<rparr>)"
  by (simp add: run_simps stub_account_in_use_def stub_account_def)

lemma find_orphans_stub_account_no_orphans:
  "find_orphans (account_client ''InvalidVolume.Notfound'') (init_world stub_account_no_orphans) =
     (Inr [],
      \<lparr>provider = stub_account_no_orphans,
       calls = [DescribeSnapshots [''self''] False None,
                DescribeVolumeStatus [''vol-1''] False None,
                DescribeVolumeStatus [''vol-2''] False None,
                DescribeVolumeStatus [''vol-3''] False None],
       logged = []\<rparr>)"
  by (simp add: run_simps stub_account_no_orphans_def stub_account_def)

lemma run_stub_account_no_orphans:
  "lambda_handler ev ctx (account_client ''InvalidVolume.Notfound'') (init_world stub_account_no_orphans) =
     (Inr \<lparr>statusCode = 200, body = None\<rparr>,
      \<lparr>provider = stub_account_no_orphans,
       calls = [DescribeSnapshots [''self''] False None,
                DescribeVolumeStatus [''vol-1''] False None,
                DescribeVolumeStatus [''vol-2''] False None,
                DescribeVolumeStatus [''vol-3''] False None],
       logged = []\<rparr>)"
  by (simp add: run_simps stub_account_no_orphans_def stub_account_def)

lemma listing_account:
  "describe_snapshots (account_client code) [''self''] False a =
     (Inr [''Snapshots'' \<mapsto> snapshots a], a)"
  by (simp add: account_client_def account_describe_snapshots_def)

lemma example_account_keyed:
  "list_all keyed_SnapshotId (snapshots example_account)"
  by (simp add: example_account_def keyed_SnapshotId_def snapshot_record_def)

subsection \<open>Runs that reach the deletion loop\<close>

lemma handler_no_failed_deletion:
  assumes run: "lambda_handler ev ctx cli (init_world s) = (res, w')"
    and f: "find_orphans cli (init_world s) = (Inr ids, w2)"
    and ok: "failed_deletions (calls w') = []"
  shows "res = Inr status_200 \<and> delete_attempts (calls w') = ids \<and> deleted (calls w') = ids \<and>
         logged w' = map (\<lambda>sid. ''Deleted SnapshotId '' @ sid) ids"
proof -
  from handler_after_enumeration [OF run f] obtain r where
    d: "delete_orphans cli ids w2 = (r, w')" and
    r: "r = Inr None \<and> res = Inr status_200 \<or>
        r = Inl (AttributeError ''EC2'' ''exception'') \<and> res = Inl (AttributeError ''EC2'' ''exception'')"
    by blast
  note k = find_orphans_keeps [OF f]
  from r show ?thesis
  proof
    assume a: "r = Inr None \<and> res = Inr status_200"
    from delete_orphans_completed [OF d [unfolded conjunct1 [OF a]]] k a show ?thesis by simp
  next
    assume a: "r = Inl (AttributeError ''EC2'' ''exception'') \<and> res = Inl (AttributeError ''EC2'' ''exception'')"
    from delete_orphans_raised [OF d [unfolded conjunct1 [OF a]]] k ok show ?thesis by simp
  qed
qed

lemma handler_empty_orphan_set:
  assumes run: "lambda_handler ev ctx cli (init_world s) = (res, w')"
    and f: "find_orphans cli (init_world s) = (Inr [], w2)"
  shows "res = Inr status_200 \<and> delete_attempts (calls w') = [] \<and> w' = w2"
  using run f find_orphans_keeps [OF f] by (auto simp: lambda_handler_phases)

lemma handler_deletes_in_order:
  assumes run: "lambda_handler ev ctx cli (init_world s) = (res, w')"
    and f: "find_orphans cli (init_world s) = (Inr ids, w2)"
  shows "\<exists>k j. k \<le> j \<and> j \<le> length ids \<and> (ids \<noteq> [] \<longrightarrow> 0 < j) \<and>
           delete_attempts (calls w') = take j ids \<and>
           deleted (calls w') = take k ids \<and>
           logged w' = map (\<lambda>sid. ''Deleted SnapshotId '' @ sid) (take k ids)"
proof -
  from handler_after_enumeration [OF run f] obtain r where
    d: "delete_orphans cli ids w2 = (r, w')" by blast
  from delete_orphans_in_order [OF d] find_orphans_keeps [OF f] show ?thesis by simp
qed

subsection \<open>The order of discovery\<close>

lemma collect_orphans_listing_order:
  "collect_orphans cli snaps acc w = (Inr ids, w') \<Longrightarrow>
     \<exists>new. ids = acc @ new \<and> subseq new (List.map_filter (\<lambda>snap. snap ''snapshotid'') snaps)"
proof (induction snaps arbitrary: acc w)
  case Nil
  then show ?case by (simp add: List.map_filter_simps)
next
  case (Cons snap rest)
  from Cons.prems obtain vid where vid: "snap ''VolumeId'' = Some vid"
    by (cases "snap ''VolumeId''") (simp_all add: collect_orphans_Cons del: collect_orphans.simps)
  obtain r1 w1 where step: "call_describe_volume_status cli [vid] False w = (r1, w1)"
    by (cases "call_describe_volume_status cli [vid] False w")
  from Cons.prems vid step
  consider (skip) "collect_orphans cli rest acc w1 = (Inr ids, w')"
    | (mark) sid where "snap ''snapshotid'' = Some sid"
        "collect_orphans cli rest (acc @ [sid]) w1 = (Inr ids, w')"
    by (auto simp add: collect_orphans_Cons simp del: collect_orphans.simps
             split: sum.splits option.splits if_splits)
  then show ?case
  proof cases
    case skip
    from Cons.IH [OF skip] obtain new where
      "ids = acc @ new" "subseq new (List.map_filter (\<lambda>snap. snap ''snapshotid'') rest)"
      by blast
    then show ?thesis
      by (cases "snap ''snapshotid''") (auto simp: List.map_filter_simps)
  next
    case mark
    from Cons.IH [OF mark(2)] obtain new where
      new: "ids = (acc @ [sid]) @ new" "subseq new (List.map_filter (\<lambda>snap. snap ''snapshotid'') rest)"
      by blast
    from new mark(1) have
      "ids = acc @ (sid # new) \<and>
       subseq (sid # new) (List.map_filter (\<lambda>snap. snap ''snapshotid'') (snap # rest))"
      by (simp add: List.map_filter_simps)
    then show ?thesis by blast
  qed
qed

lemma collect_orphans_marked:
  "collect_orphans cli snaps acc w = (Inr ids, w') \<Longrightarrow>
     \<exists>cs. calls w' = calls w @ cs \<and> length cs = length snaps \<and> ids = acc @ marked snaps cs"
proof (induction snaps arbitrary: acc w)
  case Nil
  then show ?case by simp
next
  case (Cons snap rest)
  from Cons.prems obtain vid where vid: "snap ''VolumeId'' = Some vid"
    by (cases "snap ''VolumeId''") (simp_all add: collect_orphans_Cons del: collect_orphans.simps)
  obtain r1 w1 where step: "call_describe_volume_status cli [vid] False w = (r1, w1)"
    by (cases "call_describe_volume_status cli [vid] False w")
  note w1 = call_describe_volume_status_world [OF step]
  from Cons.prems vid step
  consider (skip) "r1 = Inr ()" "collect_orphans cli rest acc w1 = (Inr ids, w')"
    | (mark) e sid where "r1 = Inl e" "snap ''snapshotid'' = Some sid"
        "collect_orphans cli rest (acc @ [sid]) w1 = (Inr ids, w')"
    by (auto simp add: collect_orphans_Cons simp del: collect_orphans.simps
             split: sum.splits option.splits if_splits)
  then show ?case
  proof cases
    case skip
    from Cons.IH [OF skip(2)] obtain cs where
      cs: "calls w' = calls w1 @ cs" "length cs = length rest" "ids = acc @ marked rest cs"
      by blast
    from cs w1 skip(1) have
      "calls w' = calls w @ (DescribeVolumeStatus [vid] False None # cs) \<and>
       length (DescribeVolumeStatus [vid] False None # cs) = length (snap # rest) \<and>
       ids = acc @ marked (snap # rest) (DescribeVolumeStatus [vid] False None # cs)"
      by simp
    then show ?thesis by blast
  next
    case mark
    from Cons.IH [OF mark(3)] obtain cs where
      cs: "calls w' = calls w1 @ cs" "length cs = length rest" "ids = (acc @ [sid]) @ marked rest cs"
      by blast
    from cs w1 mark(1,2) have
      "calls w' = calls w @ (DescribeVolumeStatus [vid] False (Some e) # cs) \<and>
       length (DescribeVolumeStatus [vid] False (Some e) # cs) = length (snap # rest) \<and>
       ids = acc @ marked (snap # rest) (DescribeVolumeStatus [vid] False (Some e) # cs)"
      by simp
    then show ?thesis by blast
  qed
qed

lemma marked_append:
  "length cs = length snaps \<Longrightarrow> marked snaps (cs @ ds) = marked snaps cs"
proof (induction snaps cs rule: marked.induct)
  case (1 snap snaps volume_ids dry_run e cs)
  then show ?case by (simp split: option.split)
qed simp_all

lemma delete_orphans_extends:
  "delete_orphans cli ids w = (r, w') \<Longrightarrow> \<exists>ds. calls w' = calls w @ ds"
proof (induction ids arbitrary: w)
  case Nil
  then show ?case by simp
next
  case (Cons sid rest)
  obtain r1 w1 where step: "call_delete_snapshot cli sid w = (r1, w1)"
    by (cases "call_delete_snapshot cli sid w")
  note w1 = call_delete_snapshot_world [OF step]
  show ?case
  proof (cases r1)
    case (Inl e)
    with Cons.prems step w1 show ?thesis
      by (auto simp add: delete_orphans_Cons simp del: delete_orphans.simps)
  next
    case (Inr u)
    with Cons.prems(1) step
    have "delete_orphans cli rest (logger_info (''Deleted SnapshotId '' @ sid) w1) = (r, w')"
      by (simp add: delete_orphans_Cons del: delete_orphans.simps)
    from Cons.IH [OF this] w1 show ?thesis
      by (auto simp: logger_info_def)
  qed
qed

lemma find_orphans_discovery:
  assumes "find_orphans cli (init_world s) = (Inr ids, w2)"
    and "describe_snapshots cli [''self''] False s = (Inr response, s1)"
    and "response ''Snapshots'' = Some snaps"
  shows "subseq ids (List.map_filter (\<lambda>snap. snap ''snapshotid'') snaps) \<and>
         (\<exists>cs. calls w2 = DescribeSnapshots [''self''] False None # cs \<and>
               length cs = length snaps \<and> ids = marked snaps cs)"
  using find_orphans_listing [OF assms(1)]
proof (elim disjE exE conjE)
  fix e assume "Inr ids = Inl e"
  then show ?thesis by simp
next
  fix response' s1' snaps' w1
  assume l: "describe_snapshots cli [''self''] False s = (Inr response', s1')"
    "response' ''Snapshots'' = Some snaps'"
    and w1: "calls w1 = [DescribeSnapshots [''self''] False None]"
    and c: "collect_orphans cli snaps' [] w1 = (Inr ids, w2)"
  from l assms(2,3) have same: "snaps' = snaps" by simp
  from collect_orphans_listing_order [OF c [unfolded same]]
  have "subseq ids (List.map_filter (\<lambda>snap. snap ''snapshotid'') snaps)" by simp
  moreover from collect_orphans_marked [OF c [unfolded same]] w1
  have "\<exists>cs. calls w2 = DescribeSnapshots [''self''] False None # cs \<and>
               length cs = length snaps \<and> ids = marked snaps cs" by simp
  ultimately show ?thesis by blast
qed

lemma handler_discovery:
  assumes run: "lambda_handler ev ctx cli (init_world s) = (res, w')"
    and f: "find_orphans cli (init_world s) = (Inr ids, w2)"
    and listing: "describe_snapshots cli [''self''] False s = (Inr response, s1)"
      "response ''Snapshots'' = Some snaps"
  shows "subseq ids (List.map_filter (\<lambda>snap. snap ''snapshotid'') snaps) \<and>
         ids = marked snaps (tl (calls w'))"
proof -
  from find_orphans_discovery [OF f listing] obtain cs where
    sub: "subseq ids (List.map_filter (\<lambda>snap. snap ''snapshotid'') snaps)" and
    cs: "calls w2 = DescribeSnapshots [''self''] False None # cs" "length cs = length snaps"
        "ids = marked snaps cs"
    by blast
  from handler_after_enumeration [OF run f] obtain r where
    d: "delete_orphans cli ids w2 = (r, w')" by blast
  from delete_orphans_extends [OF d] obtain ds where "calls w' = calls w2 @ ds" by blast
  with cs have "tl (calls w') = cs @ ds" by simp
  with cs marked_append [OF cs(2)] have "ids = marked snaps (tl (calls w'))" by simp
  with sub show ?thesis by simp
qed

section \<open>The claims\<close>

text \<open>
  C1. A snapshot is to be in the orphan list, once, exactly when the status check of its
  volume reports "not found". The handler does not do this. In the example account
  \<open>snap-1\<close> has lost its volume and the status check says so; yet the enumeration ends
  with an exception and yields no orphan list at all. With
  the code \<open>InvalidVolume.Notfound\<close> line 18 raises \<open>KeyError\<close> on the key \<open>snapshotid\<close>;
  with EC2's \<open>InvalidVolume.NotFound\<close> line 20 raises the error again.
\<close>

theorem orphan_list_never_built:
  "find_orphans (account_client ''InvalidVolume.Notfound'') (init_world example_account) =
     (Inl (KeyError ''snapshotid''),
      \<lparr>provider = example_account,
       calls = [DescribeSnapshots [''self''] False None,
                DescribeVolumeStatus [''vol-1''] False
                  (Some (volume_missing ''InvalidVolume.Notfound'' ''vol-1''))],
       logged = []\<rparr>) \<and>
   find_orphans (account_client ''InvalidVolume.NotFound'') (init_world example_account) =
     (Inl (volume_missing ''InvalidVolume.NotFound'' ''vol-1''),
      \<lparr>provider = example_account,
       calls = [DescribeSnapshots [''self''] False None,
                DescribeVolumeStatus [''vol-1''] False
                  (Some (volume_missing ''InvalidVolume.NotFound'' ''vol-1''))],
       logged = []\<rparr>)"
  by (simp add: run_simps example_account_def)

text \<open>
  C2. The claim as stated fails: in the example account, when the status check of \<open>vol-1\<close>
  fails with a \<open>ClientError\<close> whose response has no entry \<open>"Error"\<close>, which is not what the
  handler takes for "volume not found", the invocation does not end with that error: the
  subscript \<open>e.response["Error"]\<close> of line 17 raises \<open>KeyError\<close>, and the invocation ends
  with the \<open>KeyError\<close>.
\<close>

theorem check_failure_not_propagated:
  "DescribeVolumeStatus [''vol-1''] False (Some bare_client_error)
     \<in> set (calls (snd (lambda_handler () () (account_client ''InvalidVolume.NotFound'')
                           (init_world bare_error_account)))) \<and>
   \<not> volume_not_found bare_client_error \<and>
   fst (lambda_handler () () (account_client ''InvalidVolume.NotFound'') (init_world bare_error_account))
     = Inl (KeyError ''Error'') \<and>
   fst (lambda_handler () () (account_client ''InvalidVolume.NotFound'') (init_world bare_error_account))
     \<noteq> Inl bare_client_error"
  by (simp add: run_bare_error_account volume_not_found_def fixture_codes bare_client_error_def)

text \<open>
  C2, amended. When a volume-status check of an invocation raises anything but what the
  handler takes for "volume not found", the invocation ends with an exception and its trace
  holds no \<open>delete_snapshot\<close> call. The exception is the one the check raised, except when
  that is a \<open>ClientError\<close> whose response lacks the entry \<open>"Error"\<close> or its entry
  \<open>"Code"\<close>: then it is the \<open>KeyError\<close> of the subscript of line 17.
\<close>

theorem check_failure_aborts_run:
  assumes "lambda_handler event context ec2_cli (init_world s) = (res, w')"
    and "DescribeVolumeStatus volume_ids dry_run (Some e) \<in> set (calls w')"
    and "\<not> volume_not_found e"
  shows "res = Inl (if is_ClientError e
                    then (case error_code e of Inl k \<Rightarrow> k | Inr code \<Rightarrow> e)
                    else e) \<and>
         delete_attempts (calls w') = []"
  using handler_check_failure [OF assms] by (simp add: leaves_check_def)

theorem check_failure_aborts_run_witness:
  "(DescribeVolumeStatus [''vol-3''] False (Some request_limit_exceeded)
      \<in> set (calls (snd (lambda_handler () () (account_client ''InvalidVolume.Notfound'')
                            (init_world throttled_account)))) \<and>
    \<not> volume_not_found request_limit_exceeded \<and>
    fst (lambda_handler () () (account_client ''InvalidVolume.Notfound'') (init_world throttled_account))
      = Inl request_limit_exceeded \<and>
    delete_attempts (calls (snd (lambda_handler () () (account_client ''InvalidVolume.Notfound'')
                                   (init_world throttled_account)))) = []) \<and>
   (DescribeVolumeStatus [''vol-1''] False (Some bare_client_error)
      \<in> set (calls (snd (lambda_handler () () (account_client ''InvalidVolume.NotFound'')
                            (init_world bare_error_account)))) \<and>
    \<not> volume_not_found bare_client_error \<and>
    fst (lambda_handler () () (account_client ''InvalidVolume.NotFound'') (init_world bare_error_account))
      = Inl (KeyError ''Error'') \<and>
    delete_attempts (calls (snd (lambda_handler () () (account_client ''InvalidVolume.NotFound'')
                                   (init_world bare_error_account)))) = [])"
proof -
  have bad: "DescribeVolumeStatus [''vol-3''] False (Some request_limit_exceeded)
     \<in> set (calls (snd (lambda_handler () () (account_client ''InvalidVolume.Notfound'')
                           (init_world throttled_account))))"
    by (simp add: run_throttled_account)
  have other: "\<not> volume_not_found request_limit_exceeded"
    by (simp add: volume_not_found_def fixture_codes)
  have bad': "DescribeVolumeStatus [''vol-1''] False (Some bare_client_error)
     \<in> set (calls (snd (lambda_handler () () (account_client ''InvalidVolume.NotFound'')
                           (init_world bare_error_account))))"
    by (simp add: run_bare_error_account)
  have other': "\<not> volume_not_found bare_client_error"
    by (simp add: volume_not_found_def fixture_codes)
  from check_failure_aborts_run [of "()" "()", OF prod.collapse [symmetric] bad other]
       check_failure_aborts_run [of "()" "()", OF prod.collapse [symmetric] bad' other']
       bad other bad' other'
  show ?thesis by (simp add: fixture_codes)
qed

text \<open>
  C3. A failed deletion is to stop the loop and make the handler return status 500 with a
  body naming the snapshot and the error. The handler stops but returns nothing. With the
  orphan list \<open>snap-1\<close>, \<open>snap-3\<close>, the
  deletion of \<open>snap-1\<close> succeeds and that of \<open>snap-3\<close> raises a \<open>ClientError\<close>. The except
  clause of line 27 names \<open>ec2_cli.exception\<close>, which the client does not have, so the
  invocation ends with \<open>AttributeError\<close> and returns nothing: no status 500, no body.
\<close>

theorem deletion_failure_raises_attribute_error:
  "fst (lambda_handler () () (account_client ''InvalidVolume.Notfound'') (init_world stub_account_in_use))
     = Inl (AttributeError ''EC2'' ''exception'') \<and>
   calls (snd (lambda_handler () () (account_client ''InvalidVolume.Notfound'')
       (init_world stub_account_in_use))) =
     [DescribeSnapshots [''self''] False None,
      DescribeVolumeStatus [''vol-1''] False
        (Some (volume_missing ''InvalidVolume.Notfound'' ''vol-1'')),
      DescribeVolumeStatus [''vol-2''] False None,
      DescribeVolumeStatus [''vol-3''] False
        (Some (volume_missing ''InvalidVolume.Notfound'' ''vol-3'')),
      DeleteSnapshot ''snap-1'' None,
      DeleteSnapshot ''snap-3''
        (Some (snapshot_in_use ''snap-3''))] \<and>
   logged (snd (lambda_handler () () (account_client ''InvalidVolume.Notfound'')
       (init_world stub_account_in_use))) = [''Deleted SnapshotId snap-1'']"
  by (simp add: run_stub_account_in_use)

text \<open>
  C4. When the enumeration yields an empty orphan list, the handler returns
  \<open>{"statusCode": 200}\<close> and its trace holds no \<open>delete_snapshot\<close> call; and when the
  enumeration yields an orphan list and no \<open>delete_snapshot\<close> call of the invocation fails,
  the handler returns \<open>{"statusCode": 200}\<close> as well, every orphan having been deleted.
\<close>

theorem success_status_200:
  assumes "lambda_handler event context ec2_cli (init_world s) = (res, w')"
    and "find_orphans ec2_cli (init_world s) = (Inr orphans, w2)"
  shows "(orphans = [] \<longrightarrow>
            res = Inr \<lparr>statusCode = 200, body = None\<rparr> \<and> delete_attempts (calls w') = []) \<and>
         (failed_deletions (calls w') = [] \<longrightarrow>
            res = Inr \<lparr>statusCode = 200, body = None\<rparr> \<and> deleted (calls w') = orphans)"
proof -
  have "res = Inr \<lparr>statusCode = 200, body = None\<rparr> \<and> delete_attempts (calls w') = []"
    if "orphans = []"
    using handler_empty_orphan_set [OF assms(1)] assms(2) that by (auto simp: status_200_def)
  moreover
  have "res = Inr \<lparr>statusCode = 200, body = None\<rparr> \<and> deleted (calls w') = orphans"
    if "failed_deletions (calls w') = []"
    using handler_no_failed_deletion [OF assms that] by (simp add: status_200_def)
  ultimately show ?thesis by blast
qed

theorem success_status_200_witness:
  "(([]::string list) = [] \<and>
    fst (lambda_handler () () (account_client ''InvalidVolume.Notfound'')
           (init_world stub_account_no_orphans)) = Inr \<lparr>statusCode = 200, body = None\<rparr> \<and>
    delete_attempts (calls (snd (lambda_handler () () (account_client ''InvalidVolume.Notfound'')
           (init_world stub_account_no_orphans)))) = []) \<and>
   (failed_deletions (calls (snd (lambda_handler () () (account_client ''InvalidVolume.Notfound'')
           (init_world stub_account)))) = [] \<and>
    fst (lambda_handler () () (account_client ''InvalidVolume.Notfound'') (init_world stub_account))
      = Inr \<lparr>statusCode = 200, body = None\<rparr> \<and>
    deleted (calls (snd (lambda_handler () () (account_client ''InvalidVolume.Notfound'')
           (init_world stub_account)))) = [''snap-1'', ''snap-3''])"
proof -
  have none: "failed_deletions (calls (snd (lambda_handler () () (account_client ''InvalidVolume.Notfound'')
                (init_world stub_account)))) = []"
    by (simp add: run_stub_account)
  from success_status_200 [of "()" "()", OF prod.collapse [symmetric] find_orphans_stub_account_no_orphans]
       success_status_200 [of "()" "()", OF prod.collapse [symmetric] find_orphans_stub_account]
       none
  show ?thesis by simp
qed

text \<open>
  C5. When the enumeration yields a non-empty orphan list, that list holds, in the order of
  the listing, the \<open>snapshotid\<close> of each record whose status check raised, so it is a
  subsequence of the identifiers of the listing. The \<open>delete_snapshot\<close> calls of the
  invocation are made for a non-empty initial part of that list, in its order (the whole
  list when no call fails); the snapshots deleted are an initial part of the list too; and
  the records logged are exactly one \<open>Deleted SnapshotId <id>\<close> per successful deletion,
  in the order of the deletions.
\<close>

theorem deletes_in_discovery_order:
  assumes "lambda_handler event context ec2_cli (init_world s) = (res, w')"
    and "describe_snapshots ec2_cli [''self''] False s = (Inr response, s1)"
    and "response ''Snapshots'' = Some snaps"
    and "find_orphans ec2_cli (init_world s) = (Inr orphans, w2)"
    and "orphans \<noteq> []"
  shows "orphans = marked snaps (tl (calls w')) \<and>
         subseq orphans (List.map_filter (\<lambda>snap. snap ''snapshotid'') snaps) \<and>
         prefix (delete_attempts (calls w')) orphans \<and> delete_attempts (calls w') \<noteq> [] \<and>
         prefix (deleted (calls w')) orphans \<and>
         logged w' = map (\<lambda>sid. ''Deleted SnapshotId '' @ sid) (deleted (calls w')) \<and>
         (failed_deletions (calls w') = [] \<longrightarrow> deleted (calls w') = orphans)"
proof -
  from handler_deletes_in_order [OF assms(1,4)] assms(5) obtain k j where
    j: "0 < j" "j \<le> length orphans" and
    a: "delete_attempts (calls w') = take j orphans" and
    d: "deleted (calls w') = take k orphans" and
    l: "logged w' = map (\<lambda>sid. ''Deleted SnapshotId '' @ sid) (take k orphans)"
    by blast
  from handler_discovery [OF assms(1,4,2,3)]
  have "orphans = marked snaps (tl (calls w'))"
    and "subseq orphans (List.map_filter (\<lambda>snap. snap ''snapshotid'') snaps)"
    by blast+
  moreover from a have "prefix (delete_attempts (calls w')) orphans" by (simp add: take_is_prefix)
  moreover from a j assms(5) have "delete_attempts (calls w') \<noteq> []" by simp
  moreover from d have "prefix (deleted (calls w')) orphans" by (simp add: take_is_prefix)
  moreover from d l have "logged w' = map (\<lambda>sid. ''Deleted SnapshotId '' @ sid) (deleted (calls w'))"
    by simp
  moreover have "failed_deletions (calls w') = [] \<longrightarrow> deleted (calls w') = orphans"
    using handler_no_failed_deletion [OF assms(1,4)] by simp
  ultimately show ?thesis by blast
qed

theorem deletes_in_discovery_order_witness:
  "describe_snapshots (account_client ''InvalidVolume.Notfound'') [''self''] False stub_account
     = (Inr [''Snapshots'' \<mapsto> snapshots stub_account], stub_account) \<and>
   [''Snapshots'' \<mapsto> snapshots stub_account] ''Snapshots'' = Some (snapshots stub_account) \<and>
   [''snap-1'', ''snap-3''] \<noteq> [] \<and>
   List.map_filter (\<lambda>snap. snap ''snapshotid'') (snapshots stub_account)
     = [''snap-1'', ''snap-2'', ''snap-3''] \<and>
   subseq [''snap-1'', ''snap-3''] [''snap-1'', ''snap-2'', ''snap-3''] \<and>
   marked (snapshots stub_account)
     (tl (calls (snd (lambda_handler () () (account_client ''InvalidVolume.Notfound'')
        (init_world stub_account))))) = [''snap-1'', ''snap-3''] \<and>
   delete_attempts (calls (snd (lambda_handler () () (account_client ''InvalidVolume.Notfound'')
       (init_world stub_account)))) = [''snap-1'', ''snap-3''] \<and>
   failed_deletions (calls (snd (lambda_handler () () (account_client ''InvalidVolume.Notfound'')
       (init_world stub_account)))) = [] \<and>
   deleted (calls (snd (lambda_handler () () (account_client ''InvalidVolume.Notfound'')
       (init_world stub_account)))) = [''snap-1'', ''snap-3''] \<and>
   logged (snd (lambda_handler () () (account_client ''InvalidVolume.Notfound'')
       (init_world stub_account))) = [''Deleted SnapshotId snap-1'', ''Deleted SnapshotId snap-3''] \<and>
   prefix (delete_attempts (calls (snd (lambda_handler () () (account_client ''InvalidVolume.Notfound'')
       (init_world stub_account_in_use))))) [''snap-1'', ''snap-3''] \<and>
   deleted (calls (snd (lambda_handler () () (account_client ''InvalidVolume.Notfound'')
       (init_world stub_account_in_use)))) = [''snap-1''] \<and>
   logged (snd (lambda_handler () () (account_client ''InvalidVolume.Notfound'')
       (init_world stub_account_in_use))) = [''Deleted SnapshotId snap-1'']"
proof -
  note listing = listing_account [of "''InvalidVolume.Notfound''" stub_account]
  note listing' = listing_account [of "''InvalidVolume.Notfound''" stub_account_in_use]
  have entry: "[''Snapshots'' \<mapsto> snapshots stub_account] ''Snapshots'' = Some (snapshots stub_account)"
    by simp
  have entry': "[''Snapshots'' \<mapsto> snapshots stub_account_in_use] ''Snapshots''
                  = Some (snapshots stub_account_in_use)"
    by simp
  have ne: "[''snap-1'', ''snap-3''] \<noteq> []" by simp
  have ids: "List.map_filter (\<lambda>snap. snap ''snapshotid'') (snapshots stub_account)
               = [''snap-1'', ''snap-2'', ''snap-3'']"
    by (simp add: stub_account_def stub_record_def List.map_filter_simps)
  have d: "deleted (calls (snd (lambda_handler () () (account_client ''InvalidVolume.Notfound'')
             (init_world stub_account)))) = [''snap-1'', ''snap-3'']"
          "failed_deletions (calls (snd (lambda_handler () () (account_client ''InvalidVolume.Notfound'')
             (init_world stub_account)))) = []"
          "delete_attempts (calls (snd (lambda_handler () () (account_client ''InvalidVolume.Notfound'')
             (init_world stub_account)))) = [''snap-1'', ''snap-3'']"
          "deleted (calls (snd (lambda_handler () () (account_client ''InvalidVolume.Notfound'')
             (init_world stub_account_in_use)))) = [''snap-1'']"
    by (simp_all add: run_stub_account run_stub_account_in_use)
  note all_deleted = deletes_in_discovery_order
         [of "()" "()", OF prod.collapse [symmetric] listing entry find_orphans_stub_account ne]
  note one_refused = deletes_in_discovery_order
         [of "()" "()", OF prod.collapse [symmetric] listing' entry' find_orphans_stub_account_in_use ne]
  from all_deleted [THEN conjunct1, symmetric] have m: "marked (snapshots stub_account)
     (tl (calls (snd (lambda_handler () () (account_client ''InvalidVolume.Notfound'')
        (init_world stub_account))))) = [''snap-1'', ''snap-3'']" .
  from all_deleted have "subseq [''snap-1'', ''snap-3'']
       (List.map_filter (\<lambda>snap. snap ''snapshotid'') (snapshots stub_account))"
    by blast
  with ids have sub: "subseq [''snap-1'', ''snap-3''] [''snap-1'', ''snap-2'', ''snap-3'']"
    by simp
  from all_deleted have "logged (snd (lambda_handler () () (account_client ''InvalidVolume.Notfound'')
       (init_world stub_account))) =
     map (\<lambda>sid. ''Deleted SnapshotId '' @ sid)
       (deleted (calls (snd (lambda_handler () () (account_client ''InvalidVolume.Notfound'')
          (init_world stub_account)))))"
    by blast
  with d(1) have l: "logged (snd (lambda_handler () () (account_client ''InvalidVolume.Notfound'')
       (init_world stub_account))) = [''Deleted SnapshotId snap-1'', ''Deleted SnapshotId snap-3'']"
    by simp
  from one_refused have p: "prefix (delete_attempts (calls (snd (lambda_handler () ()
       (account_client ''InvalidVolume.Notfound'') (init_world stub_account_in_use))))) [''snap-1'', ''snap-3'']"
    by blast
  from one_refused have "logged (snd (lambda_handler () () (account_client ''InvalidVolume.Notfound'')
       (init_world stub_account_in_use))) =
     map (\<lambda>sid. ''Deleted SnapshotId '' @ sid)
       (deleted (calls (snd (lambda_handler () () (account_client ''InvalidVolume.Notfound'')
          (init_world stub_account_in_use)))))"
    by blast
  with d(4) have l': "logged (snd (lambda_handler () () (account_client ''InvalidVolume.Notfound'')
       (init_world stub_account_in_use))) = [''Deleted SnapshotId snap-1'']"
    by simp
  from listing entry ne ids sub m d l p l' show ?thesis by blast
qed

text \<open>
  C6. The claim as stated fails: an invocation that deletes two snapshots and one that
  deletes none return the same value, \<open>{"statusCode": 200}\<close>.
\<close>

theorem result_hides_deletion_count:
  "fst (lambda_handler () () (account_client ''InvalidVolume.Notfound'') (init_world stub_account))
     = Inr \<lparr>statusCode = 200, body = None\<rparr> \<and>
   deleted (calls (snd (lambda_handler () () (account_client ''InvalidVolume.Notfound'')
       (init_world stub_account)))) = [''snap-1'', ''snap-3''] \<and>
   fst (lambda_handler () () (account_client ''InvalidVolume.Notfound'')
       (init_world stub_account_no_orphans)) = Inr \<lparr>statusCode = 200, body = None\<rparr> \<and>
   deleted (calls (snd (lambda_handler () () (account_client ''InvalidVolume.Notfound'')
       (init_world stub_account_no_orphans)))) = []"
  by (simp add: run_stub_account run_stub_account_no_orphans)

text \<open>
  C6, amended. When the handler returns a result and no \<open>delete_snapshot\<close> call of the
  invocation failed, the result is exactly \<open>{"statusCode": 200}\<close>, with no body and no
  count; the number of snapshots deleted is the number of records logged.
\<close>

theorem result_is_bare_status:
  assumes "lambda_handler event context ec2_cli (init_world s) = (Inr r, w')"
    and "failed_deletions (calls w') = []"
  shows "r = \<lparr>statusCode = 200, body = None\<rparr> \<and>
         length (logged w') = length (deleted (calls w'))"
proof -
  obtain fr w2 where f: "find_orphans ec2_cli (init_world s) = (fr, w2)"
    by (cases "find_orphans ec2_cli (init_world s)")
  show ?thesis
  proof (cases fr)
    case (Inl e)
    from handler_aborts_in_enumeration [OF assms(1) f [unfolded Inl]] show ?thesis by simp
  next
    case (Inr ids)
    from handler_no_failed_deletion [OF assms(1) f [unfolded Inr] assms(2)]
    show ?thesis by (simp add: status_200_def)
  qed
qed

theorem result_is_bare_status_witness:
  "lambda_handler () () (account_client ''InvalidVolume.Notfound'') (init_world stub_account) =
     (Inr \<lparr>statusCode = 200, body = None\<rparr>,
      snd (lambda_handler () () (account_client ''InvalidVolume.Notfound'') (init_world stub_account))) \<and>
   failed_deletions (calls (snd (lambda_handler () () (account_client ''InvalidVolume.Notfound'')
       (init_world stub_account)))) = [] \<and>
   length (logged (snd (lambda_handler () () (account_client ''InvalidVolume.Notfound'')
       (init_world stub_account)))) = 2 \<and>
   length (deleted (calls (snd (lambda_handler () () (account_client ''InvalidVolume.Notfound'')
       (init_world stub_account))))) = 2"
proof -
  have run: "lambda_handler () () (account_client ''InvalidVolume.Notfound'') (init_world stub_account) =
     (Inr \<lparr>statusCode = 200, body = None\<rparr>,
      snd (lambda_handler () () (account_client ''InvalidVolume.Notfound'') (init_world stub_account)))"
    by (simp add: run_stub_account)
  have none: "failed_deletions (calls (snd (lambda_handler () () (account_client ''InvalidVolume.Notfound'')
       (init_world stub_account)))) = []"
    by (simp add: run_stub_account)
  have two: "length (deleted (calls (snd (lambda_handler () () (account_client ''InvalidVolume.Notfound'')
       (init_world stub_account))))) = 2"
    by (simp add: run_stub_account)
  from result_is_bare_status [OF run none] run none two show ?thesis by simp
qed

text \<open>
  C7. A second invocation, following a first with no snapshot created in between, is to
  end without error. The handler does not do this. On the example account, through a client that
  reports a missing volume as EC2 does, the first invocation ends with the \<open>ClientError\<close> of
  the check of \<open>vol-1\<close> and leaves the account as it was; the second invocation, on that
  account, ends with the same error. Through a client that reports the code
  \<open>InvalidVolume.Notfound\<close> both invocations end with the \<open>KeyError\<close> of line 18.
\<close>

theorem second_run_raises_again:
  "fst (lambda_handler () () (account_client ''InvalidVolume.NotFound'') (init_world example_account))
     = Inl (volume_missing ''InvalidVolume.NotFound'' ''vol-1'') \<and>
   provider (snd (lambda_handler () () (account_client ''InvalidVolume.NotFound'')
       (init_world example_account))) = example_account \<and>
   fst (lambda_handler () () (account_client ''InvalidVolume.NotFound'')
       (init_world (provider (snd (lambda_handler () () (account_client ''InvalidVolume.NotFound'')
          (init_world example_account))))))
     = Inl (volume_missing ''InvalidVolume.NotFound'' ''vol-1'') \<and>
   fst (lambda_handler () () (account_client ''InvalidVolume.Notfound'') (init_world example_account))
     = Inl (KeyError ''snapshotid'') \<and>
   fst (lambda_handler () () (account_client ''InvalidVolume.Notfound'')
       (init_world (provider (snd (lambda_handler () () (account_client ''InvalidVolume.Notfound'')
          (init_world example_account))))))
     = Inl (KeyError ''snapshotid'')"
  by (simp add: run_example_account run_example_account_lowercase_code)

text \<open>
  C8. The handler never reads \<open>event\<close> or \<open>context\<close>: two invocations that differ only in
  these arguments, from the same world and through the same client, end with the same
  result (or exception), the same sequence of client calls with the same outcomes, the same
  provider state and the same log.
\<close>

theorem payload_and_context_unused:
  "lambda_handler event context ec2_cli w = lambda_handler event' context' ec2_cli w"
  by (simp add: lambda_handler_def)

text \<open>
  C9. The test of line 17 compares the error code with the string
  \<open>InvalidVolume.Notfound\<close>, character by character: a \<open>ClientError\<close> of a volume-status
  check that carries a code, and whose code is any other string (EC2's own
  \<open>InvalidVolume.NotFound\<close> among them), is raised again. The invocation ends with it, the loop yields no orphan list, and nothing is
  deleted.
\<close>

theorem not_found_code_is_exact:
  assumes "lambda_handler event context ec2_cli (init_world s) = (res, w')"
    and "DescribeVolumeStatus volume_ids dry_run (Some e) \<in> set (calls w')"
    and "is_ClientError e"
    and "error_code e = Inr code"
    and "code \<noteq> ''InvalidVolume.Notfound''"
  shows "res = Inl e \<and>
         fst (find_orphans ec2_cli (init_world s)) = Inl e \<and>
         delete_attempts (calls w') = []"
proof -
  from assms(3,4,5) have other: "\<not> volume_not_found e"
    by (simp add: volume_not_found_def)
  from assms(3,4) have "leaves_check e = e"
    by (simp add: leaves_check_def)
  with handler_check_failure [OF assms(1,2) other] show ?thesis by simp
qed

theorem not_found_code_is_exact_witness:
  "DescribeVolumeStatus [''vol-1''] False
     (Some (volume_missing ''InvalidVolume.NotFound'' ''vol-1''))
     \<in> set (calls (snd (lambda_handler () () (account_client ''InvalidVolume.NotFound'')
                           (init_world example_account)))) \<and>
   is_ClientError (volume_missing ''InvalidVolume.NotFound'' ''vol-1'') \<and>
   error_code (volume_missing ''InvalidVolume.NotFound'' ''vol-1'') = Inr ''InvalidVolume.NotFound'' \<and>
   ''InvalidVolume.NotFound'' \<noteq> ''InvalidVolume.Notfound'' \<and>
   fst (lambda_handler () () (account_client ''InvalidVolume.NotFound'') (init_world example_account))
     = Inl (volume_missing ''InvalidVolume.NotFound'' ''vol-1'') \<and>
   fst (find_orphans (account_client ''InvalidVolume.NotFound'') (init_world example_account))
     = Inl (volume_missing ''InvalidVolume.NotFound'' ''vol-1'') \<and>
   delete_attempts (calls (snd (lambda_handler () () (account_client ''InvalidVolume.NotFound'')
                                  (init_world example_account)))) = []"
proof -
  note run = run_example_account [of "()" "()"]
  have bad: "DescribeVolumeStatus [''vol-1''] False
       (Some (volume_missing ''InvalidVolume.NotFound'' ''vol-1''))
     \<in> set (calls (snd (lambda_handler () () (account_client ''InvalidVolume.NotFound'')
                           (init_world example_account))))"
    by (simp add: run)
  note cls = fixture_codes(1) [of "''InvalidVolume.NotFound''" "''vol-1''"]
  note code = fixture_codes(2) [of "''InvalidVolume.NotFound''" "''vol-1''"]
  have differs: "''InvalidVolume.NotFound'' \<noteq> ''InvalidVolume.Notfound''"
    by simp
  from not_found_code_is_exact [of "()" "()", OF prod.collapse [symmetric] bad cls code differs]
       bad cls code differs
  show ?thesis by blast
qed

text \<open>
  C10. When the records of the listing are keyed as EC2 keys them (the identifier under
  \<open>SnapshotId\<close>, no key \<open>snapshotid\<close>) and a volume-status check of the invocation
  reports what the handler takes for "volume not found", the subscript
  \<open>each_snapshot["snapshotid"]\<close> of line 18 raises \<open>KeyError\<close>: the invocation ends with
  that exception, not with a result, the loop yields no orphan list, and no
  \<open>delete_snapshot\<close> call is made.
\<close>

theorem orphan_marking_raises_key_error:
  assumes "lambda_handler event context ec2_cli (init_world s) = (res, w')"
    and "describe_snapshots ec2_cli [''self''] False s = (Inr response, s1)"
    and "response ''Snapshots'' = Some snaps"
    and "list_all keyed_SnapshotId snaps"
    and "DescribeVolumeStatus volume_ids dry_run (Some e) \<in> set (calls w')"
    and "volume_not_found e"
  shows "res = Inl (KeyError ''snapshotid'') \<and>
         fst (find_orphans ec2_cli (init_world s)) = Inl (KeyError ''snapshotid'') \<and>
         delete_attempts (calls w') = []"
  using handler_key_error [OF assms] by simp

theorem orphan_marking_raises_key_error_witness:
  "describe_snapshots (account_client ''InvalidVolume.Notfound'') [''self''] False example_account
     = (Inr [''Snapshots'' \<mapsto> snapshots example_account], example_account) \<and>
   [''Snapshots'' \<mapsto> snapshots example_account] ''Snapshots'' = Some (snapshots example_account) \<and>
   list_all keyed_SnapshotId (snapshots example_account) \<and>
   DescribeVolumeStatus [''vol-1''] False
     (Some (volume_missing ''InvalidVolume.Notfound'' ''vol-1''))
     \<in> set (calls (snd (lambda_handler () () (account_client ''InvalidVolume.Notfound'')
                           (init_world example_account)))) \<and>
   volume_not_found (volume_missing ''InvalidVolume.Notfound'' ''vol-1'') \<and>
   fst (lambda_handler () () (account_client ''InvalidVolume.Notfound'') (init_world example_account))
     = Inl (KeyError ''snapshotid'') \<and>
   fst (find_orphans (account_client ''InvalidVolume.Notfound'') (init_world example_account))
     = Inl (KeyError ''snapshotid'') \<and>
   delete_attempts (calls (snd (lambda_handler () () (account_client ''InvalidVolume.Notfound'')
                                  (init_world example_account)))) = []"
proof -
  note run = run_example_account_lowercase_code [of "()" "()"]
  note listing = listing_account [of "''InvalidVolume.Notfound''" example_account]
  have entry: "[''Snapshots'' \<mapsto> snapshots example_account] ''Snapshots''
                 = Some (snapshots example_account)"
    by simp
  have nf: "DescribeVolumeStatus [''vol-1''] False
       (Some (volume_missing ''InvalidVolume.Notfound'' ''vol-1''))
     \<in> set (calls (snd (lambda_handler () () (account_client ''InvalidVolume.Notfound'')
                           (init_world example_account))))"
    by (simp add: run)
  have code: "volume_not_found (volume_missing ''InvalidVolume.Notfound'' ''vol-1'')"
    by (simp add: volume_not_found_def fixture_codes)
  from orphan_marking_raises_key_error
         [OF prod.collapse [symmetric] listing entry example_account_keyed nf code]
       listing entry example_account_keyed nf code
  show ?thesis by blast
qed

end
